theory Spec2Isabelle
  imports Complex_Main "HOL-Library.AList" "HOL-Library.Multiset"
begin

section \<open>Student grading pipeline: data model\<close>

text \<open>
  A shallow embedding of \<^verbatim>\<open>examples/batch-processing/student-grading-automation.py\<close>.
  Python floats and ints are read as exact numbers of type \<^typ>\<open>real\<close>: sums, products
  and comparisons are the mathematical ones, and rounding of IEEE doubles is not part of
  the model. Dictionaries are association lists in insertion order, as Python iterates
  them. An exception of the source is a value: \<open>Inl e\<close> of a sum type where a function
  returns or raises, \<open>Some e\<close> beside what was written before it where a function
  writes a file.
\<close>

datatype error =
    ZeroDivisionError
  | ValueError
  | FileNotFoundError
  | NotADirectoryError
  | AttributeError

text \<open>The dataclasses \<^verbatim>\<open>StudentSubmission\<close>, \<^verbatim>\<open>AIDetectionResult\<close> and
  \<^verbatim>\<open>GradingResult\<close>. A \<^verbatim>\<open>datetime\<close> is its timestamp.\<close>

record StudentSubmission =
  student_id :: string
  student_name :: string
  submission_path :: string
  submission_time :: "real option"
  late_submission :: bool

record AIDetectionResult =
  is_ai_generated :: bool
  confidence_score :: real
  risk_level :: string
  patterns_detected :: int
  high_confidence_patterns :: int
  analysis_time :: int
  warnings :: "string list"

text \<open>
  The feedback of \<^verbatim>\<open>_generate_feedback\<close> is the list \<^verbatim>\<open>feedback_parts\<close> that the
  source joins with newlines. Each constructor is one \<^verbatim>\<open>append\<close> of the source; the
  numbers a line formats are kept as numbers.
\<close>

datatype feedback_part =
    OverallScoreLine real
  | BlankLine
  | BreakdownHeader
  | CriterionLine string real
  | IntegrityAlertHeader
  | DetectedLine real
  | RiskLevelLine string
  | ManualReviewLine
  | IntegrityPassedLine
  | LatePenaltyLine real
  | RecommendationsHeader
  | RecExcellent
  | RecGood
  | RecPassing
  | RecBelowPassing
  | RecScheduleMeeting
  | RecCompleteIndependently
  | ProcessingFailedLine error

record GradingResult =
  g_student_id :: string
  g_student_name :: string
  ai_detection :: "AIDetectionResult option"
  overall_score :: real
  grade_letter :: string
  criteria_scores :: "(string \<times> real) list"
  feedback :: "feedback_part list"
  requires_manual_review :: bool
  academic_integrity_flag :: bool

section \<open>Letter grades\<close>

definition score_to_letter_grade :: "real \<Rightarrow> string" where
  "score_to_letter_grade score =
     (if score \<ge> 97 then ''A+''
      else if score \<ge> 93 then ''A''
      else if score \<ge> 90 then ''A-''
      else if score \<ge> 87 then ''B+''
      else if score \<ge> 83 then ''B''
      else if score \<ge> 80 then ''B-''
      else if score \<ge> 77 then ''C+''
      else if score \<ge> 73 then ''C''
      else if score \<ge> 70 then ''C-''
      else if score \<ge> 67 then ''D+''
      else if score \<ge> 63 then ''D''
      else if score \<ge> 60 then ''D-''
      else ''F'')"

section \<open>Configuration documents and deep merge\<close>

text \<open>
  What \<^verbatim>\<open>json.load\<close> returns: \<^verbatim>\<open>None\<close>, a bool, an int, a float, a string, a list
  or a dict. A dict is an association list in insertion order.
\<close>

datatype json =
    JNull
  | JBool bool
  | JInt int
  | JFloat real
  | JStr string
  | JList "json list"
  | JDict "(string \<times> json) list"

text \<open>
  \<^verbatim>\<open>_deep_merge(base_dict, update_dict)\<close> mutates \<^verbatim>\<open>base_dict\<close> in place; the model
  returns the mutated dict. The loop runs over \<^verbatim>\<open>update_dict.items()\<close> in order.
  \<^verbatim>\<open>base_dict[key] = value\<close> is \<^const>\<open>AList.update\<close>: an existing key keeps its
  position, a new key goes to the end.
\<close>

fun deep_merge :: "(string \<times> json) list \<Rightarrow> (string \<times> json) list \<Rightarrow> (string \<times> json) list" where
  "deep_merge base_dict [] = base_dict"
| "deep_merge base_dict ((key, val) # rest) =
     deep_merge
       (case (map_of base_dict key, val) of
          (Some (JDict b), JDict v) \<Rightarrow> AList.update key (JDict (deep_merge b v)) base_dict
        | _ \<Rightarrow> AList.update key val base_dict)
       rest"

text \<open>The hard-coded \<^verbatim>\<open>default_config\<close> of \<^verbatim>\<open>_load_config\<close>.\<close>

definition default_config :: "(string \<times> json) list" where
  "default_config =
     [(''ai_detection'', JDict
        [(''enabled'', JBool True),
         (''threshold'', JFloat 0.75),
         (''analyzers'', JStr ''git,documentation''),
         (''fail_on_detection'', JBool False),
         (''include_in_report'', JBool True)]),
      (''grading'', JDict
        [(''system'', JStr ''letter''),
         (''max_score'', JInt 100),
         (''passing_threshold'', JInt 70),
         (''criteria'', JDict
            [(''correctness'', JInt 40),
             (''code_quality'', JInt 25),
             (''documentation'', JInt 15),
             (''testing'', JInt 10),
             (''creativity'', JInt 10)])]),
      (''assignment'', JDict
        [(''title'', JStr ''Programming Assignment''),
         (''difficulty'', JStr ''mid''),
         (''type'', JStr ''take-home''),
         (''late_penalty'', JInt 10)]),
      (''processing'', JDict
        [(''parallel_workers'', JInt 4),
         (''timeout_seconds'', JInt 300)]),
      (''output'', JDict
        [(''results_dir'', JStr ''./grading-results''),
         (''reports_dir'', JStr ''./grading-reports''),
         (''individual_feedback'', JBool True),
         (''summary_report'', JBool True),
         (''csv_export'', JBool True)])]"

text \<open>
  What \<^verbatim>\<open>_load_config\<close> finds at \<^verbatim>\<open>config_path\<close>: no path given (\<^verbatim>\<open>None\<close> or the
  empty string), a path that does not exist, a file that \<^verbatim>\<open>open\<close> or \<^verbatim>\<open>json.load\<close>
  rejects, or a parsed document.
\<close>

datatype config_file = NoPath | NotFound | Unreadable | Parsed json

text \<open>
  A parsed document that is not a dict has no \<^verbatim>\<open>items\<close>: \<^verbatim>\<open>_deep_merge\<close> raises
  \<^verbatim>\<open>AttributeError\<close> before it writes anything, the \<^verbatim>\<open>except\<close> of \<^verbatim>\<open>_load_config\<close>
  catches it, and the defaults are returned untouched.
\<close>

fun load_config :: "config_file \<Rightarrow> (string \<times> json) list" where
  "load_config (Parsed (JDict user_config)) = deep_merge default_config user_config"
| "load_config _ = default_config"

subsection \<open>Predicates on configuration trees\<close>

text \<open>
  \<open>has_path j ks\<close>: the tree \<open>j\<close> has the key \<open>ks ! 0\<close>, under it the key \<open>ks ! 1\<close>, and
  so on; this is how \<^verbatim>\<open>config[k0][k1]...\<close> finds a value without a \<^verbatim>\<open>KeyError\<close>.
\<close>

fun has_path :: "json \<Rightarrow> string list \<Rightarrow> bool" where
  "has_path j [] = True"
| "has_path (JDict d) (k # ks) = (case map_of d k of None \<Rightarrow> False | Some v \<Rightarrow> has_path v ks)"
| "has_path _ (k # ks) = False"

text \<open>
  \<open>dict_ok d\<close>: the keys of \<open>d\<close> are distinct, and so are those of every dict nested in it
  through dicts, as in any Python dict.
\<close>

fun dict_ok :: "(string \<times> json) list \<Rightarrow> bool" where
  "dict_ok [] = True"
| "dict_ok ((k, v) # rest) =
     (k \<notin> fst ` set rest \<and> (case v of JDict d \<Rightarrow> dict_ok d | _ \<Rightarrow> True) \<and> dict_ok rest)"

text \<open>
  \<open>conforms base upd\<close>: wherever \<open>base\<close> has a mapping, \<open>upd\<close> (if it has the key at all)
  has a mapping too, at every nesting level.
\<close>

fun conforms :: "(string \<times> json) list \<Rightarrow> (string \<times> json) list \<Rightarrow> bool" where
  "conforms base_dict [] = True"
| "conforms base_dict ((key, val) # rest) =
     ((case map_of base_dict key of
         Some (JDict b) \<Rightarrow> (case val of JDict v \<Rightarrow> conforms b v | _ \<Rightarrow> False)
       | _ \<Rightarrow> True)
      \<and> conforms base_dict rest)"

section \<open>The resolved configuration as the pipeline reads it\<close>

text \<open>
  The pipeline reads the resolved configuration through fixed key paths. The record has
  one field per path that is read, with the type the default tree gives it:
  \<^verbatim>\<open>config['ai_detection']['enabled']\<close> is \<open>ai_enabled\<close>,
  \<^verbatim>\<open>config['grading']['criteria']\<close> is \<open>criteria\<close> and so on.
\<close>

record config =
  ai_enabled :: bool
  ai_threshold :: real
  ai_analyzers :: string
  fail_on_detection :: bool
  criteria :: "(string \<times> real) list"
  assignment_title :: string
  late_penalty :: real
  parallel_workers :: int
  timeout_seconds :: real
  individual_feedback :: bool
  summary_report :: bool
  csv_export :: bool

section \<open>Detection adapter\<close>

text \<open>
  The dict \<^verbatim>\<open>ai_data\<close> that \<^verbatim>\<open>run_ai_detection\<close> reads out of the detector's report:
  each key may be absent, and then \<^verbatim>\<open>ai_data.get\<close> supplies the default. A value that
  is present has the type of the dataclass field it goes to.
\<close>

record ai_data =
  isAIGenerated :: "bool option"
  confidenceScore :: "real option"
  patternsDetected :: "int option"
  highConfidencePatterns :: "int option"
  analysisTime :: "int option"

text \<open>
  What happens inside the \<^verbatim>\<open>try\<close> of \<^verbatim>\<open>run_ai_detection\<close>: \<^verbatim>\<open>subprocess.run\<close> raises
  \<^verbatim>\<open>TimeoutExpired\<close>; it raises something else; it returns and the output file does not
  exist; the file exists and reading it raises (it cannot be opened or parsed, or the
  document does not have the shape the code reads); or the file gives \<^verbatim>\<open>ai_data\<close>.
\<close>

datatype detector_outcome =
    TimeoutExpired
  | RunFailed
  | NoOutputFile
  | BadOutput
  | Report ai_data

definition run_ai_detection ::
  "config \<Rightarrow> StudentSubmission \<Rightarrow> detector_outcome \<Rightarrow> AIDetectionResult option" where
  "run_ai_detection cfg submission outcome =
     (if \<not> ai_enabled cfg then None
      else case outcome of
        Report d \<Rightarrow>
          (let confidence = (case confidenceScore d of None \<Rightarrow> 0 | Some c \<Rightarrow> c);
               risk = (if confidence \<ge> 0.9 then ''CRITICAL''
                       else if confidence \<ge> 0.8 then ''HIGH''
                       else if confidence \<ge> 0.6 then ''MEDIUM''
                       else ''LOW'')
           in Some \<lparr> is_ai_generated = (case isAIGenerated d of None \<Rightarrow> False | Some b \<Rightarrow> b),
                     confidence_score = confidence,
                     risk_level = risk,
                     patterns_detected = (case patternsDetected d of None \<Rightarrow> 0 | Some n \<Rightarrow> n),
                     high_confidence_patterns =
                       (case highConfidencePatterns d of None \<Rightarrow> 0 | Some n \<Rightarrow> n),
                     analysis_time = (case analysisTime d of None \<Rightarrow> 0 | Some n \<Rightarrow> n),
                     warnings = [] \<rparr>)
      | _ \<Rightarrow> None)"

section \<open>Grade calculator\<close>

text \<open>
  \<^verbatim>\<open>_generate_feedback\<close>. \<open>CriterionLine c s\<close> is the line that shows
  \<^verbatim>\<open>criterion.title()\<close> and the score.
\<close>

definition generate_feedback ::
  "config \<Rightarrow> StudentSubmission \<Rightarrow> AIDetectionResult option \<Rightarrow> (string \<times> real) list \<Rightarrow> real
     \<Rightarrow> feedback_part list" where
  "generate_feedback cfg submission ai_result scores overall =
     [OverallScoreLine overall, BlankLine, BreakdownHeader]
     @ map (\<lambda>(criterion, score). CriterionLine criterion score) scores
     @ [BlankLine]
     @ (case ai_result of
          None \<Rightarrow> []
        | Some a \<Rightarrow>
            if is_ai_generated a
            then [IntegrityAlertHeader, DetectedLine (confidence_score a),
                  RiskLevelLine (risk_level a), ManualReviewLine, BlankLine]
            else [IntegrityPassedLine, BlankLine])
     @ (if late_submission submission then [LatePenaltyLine (late_penalty cfg), BlankLine] else [])
     @ [RecommendationsHeader]
     @ [if overall \<ge> 90 then RecExcellent
        else if overall \<ge> 80 then RecGood
        else if overall \<ge> 70 then RecPassing
        else RecBelowPassing]
     @ (case ai_result of
          None \<Rightarrow> []
        | Some a \<Rightarrow> if is_ai_generated a then [RecScheduleMeeting, RecCompleteIndependently] else [])"

text \<open>The placeholder \<^verbatim>\<open>base_scores\<close> that \<^verbatim>\<open>calculate_grade\<close> starts from.\<close>

definition initial_base_scores :: "(string \<times> real) list" where
  "initial_base_scores =
     [(''correctness'', 85), (''code_quality'', 78), (''documentation'', 90),
      (''testing'', 75), (''creativity'', 80)]"

text \<open>
  \<^verbatim>\<open>calculate_grade\<close>. The only \<^verbatim>\<open>raise\<close> is the division by \<^verbatim>\<open>total_weight\<close> in the
  first round of the weighting loop, when the configured weights sum to zero.
  \<open>penalised\<close> is \<^verbatim>\<open>base_scores\<close> after the detection block, \<open>scores\<close> after the
  late block.
\<close>

definition calculate_grade ::
  "config \<Rightarrow> StudentSubmission \<Rightarrow> AIDetectionResult option \<Rightarrow> error + GradingResult" where
  "calculate_grade cfg submission ai_result =
     (let flagged = (case ai_result of None \<Rightarrow> False | Some a \<Rightarrow> is_ai_generated a);
          penalised =
            (case ai_result of
               None \<Rightarrow> initial_base_scores
             | Some a \<Rightarrow>
                 if is_ai_generated a
                 then (if fail_on_detection cfg
                       then map (\<lambda>(key, score). (key, 0)) initial_base_scores
                       else (let penalty_factor = min 0.5 (confidence_score a)
                             in map (\<lambda>(key, score). (key, score * (1 - penalty_factor)))
                                  initial_base_scores))
                 else initial_base_scores);
          scores =
            (if late_submission submission
             then (let penalty = late_penalty cfg / 100
                   in map (\<lambda>(key, score). (key, score * (1 - penalty))) penalised)
             else penalised);
          criteria_weights = criteria cfg;
          total_weight = sum_list (map snd criteria_weights)
      in if total_weight = 0 then Inl ZeroDivisionError
         else
           (let overall =
                  fold (\<lambda>(criterion, score) acc.
                          acc + score * ((case map_of criteria_weights criterion of
                                            None \<Rightarrow> 0 | Some w \<Rightarrow> w) / total_weight))
                       scores 0
            in Inr \<lparr> g_student_id = student_id submission,
                      g_student_name = student_name submission,
                      ai_detection = ai_result,
                      overall_score = overall,
                      grade_letter = score_to_letter_grade overall,
                      criteria_scores = scores,
                      feedback = generate_feedback cfg submission ai_result scores overall,
                      requires_manual_review = flagged,
                      academic_integrity_flag = flagged \<rparr>))"

section \<open>Orchestrator\<close>

text \<open>
  \<^verbatim>\<open>process_submission\<close>: detection, then grading, inside one \<^verbatim>\<open>try\<close>; any exception
  becomes the default failing grade.
\<close>

definition process_submission ::
  "config \<Rightarrow> StudentSubmission \<Rightarrow> detector_outcome \<Rightarrow> GradingResult" where
  "process_submission cfg submission outcome =
     (case calculate_grade cfg submission (run_ai_detection cfg submission outcome) of
        Inr grade_result \<Rightarrow> grade_result
      | Inl e \<Rightarrow>
          \<lparr> g_student_id = student_id submission,
            g_student_name = student_name submission,
            ai_detection = None,
            overall_score = 0,
            grade_letter = ''F'',
            criteria_scores = [],
            feedback = [ProcessingFailedLine e],
            requires_manual_review = True,
            academic_integrity_flag = False \<rparr>)"

text \<open>
  \<^verbatim>\<open>as_completed\<close> hands the futures over in the order in which they finish, which the
  code does not control. \<open>order n\<close> picks which of the futures still pending finishes at
  step \<open>n\<close>; every order of completion is some \<open>order\<close>.
\<close>

function as_completed :: "(nat \<Rightarrow> nat) \<Rightarrow> nat \<Rightarrow> 'a list \<Rightarrow> 'a list" where
  "as_completed order n pending =
     (if pending = [] then []
      else (let i = order n mod length pending
            in pending ! i # as_completed order (Suc n) (take i pending @ drop (Suc i) pending)))"
  by pat_completeness auto
termination
proof (relation "measure (\<lambda>(order, n, pending). length pending)", goal_cases)
  case 1
  show ?case by simp
next
  case (2 order n pending i)
  then have "i < length pending" by simp
  then show ?case by auto
qed

declare as_completed.simps [simp del]

text \<open>
  The collecting loop of \<^verbatim>\<open>process_all_submissions\<close>: a future whose \<^verbatim>\<open>result()\<close>
  returns is appended, one whose \<^verbatim>\<open>result()\<close> raises is logged and left out.
\<close>

fun collect_results :: "(error + GradingResult) list \<Rightarrow> GradingResult list" where
  "collect_results [] = []"
| "collect_results (Inr result # futures) = result # collect_results futures"
| "collect_results (Inl e # futures) = collect_results futures"

text \<open>
  \<^verbatim>\<open>process_all_submissions\<close>. \<^verbatim>\<open>ThreadPoolExecutor\<close> raises \<^verbatim>\<open>ValueError\<close> when
  \<^verbatim>\<open>max_workers\<close> is not positive. \<open>detect i\<close> is what the detector does for the
  \<open>i\<close>-th submission of the list. A future holds what \<^verbatim>\<open>process_submission\<close> returned.
\<close>

definition process_all_submissions ::
  "config \<Rightarrow> (nat \<Rightarrow> detector_outcome) \<Rightarrow> (nat \<Rightarrow> nat) \<Rightarrow> StudentSubmission list
     \<Rightarrow> error + GradingResult list" where
  "process_all_submissions cfg detect order submissions =
     (if parallel_workers cfg \<le> 0 then Inl ValueError
      else (let futures = map (\<lambda>(i, submission). Inr (process_submission cfg submission (detect i)))
                            (enumerate 0 submissions)
            in Inr (collect_results (as_completed order 0 futures))))"

section \<open>Submission discovery\<close>

text \<open>
  \<^verbatim>\<open>_extract_student_name\<close>. A character is a code point below 256; \<open>is_space\<close> holds
  for those on which \<^verbatim>\<open>str.split()\<close> splits.
\<close>

definition is_space :: "char \<Rightarrow> bool" where
  "is_space c = ((of_char c :: nat) \<in> {9, 10, 11, 12, 13, 28, 29, 30, 31, 32, 133, 160})"

fun split_words :: "string \<Rightarrow> string \<Rightarrow> string list" where
  "split_words cur [] = (if cur = [] then [] else [cur])"
| "split_words cur (c # cs) =
     (if is_space c then (if cur = [] then split_words [] cs else cur # split_words [] cs)
      else split_words (cur @ [c]) cs)"

fun join_words :: "string list \<Rightarrow> string" where
  "join_words [] = []"
| "join_words [w] = w"
| "join_words (w # ws) = w @ '' '' @ join_words ws"

definition extract_student_name :: "string \<Rightarrow> string" where
  "extract_student_name dir_name =
     (let parts = split_words []
            (map (\<lambda>c. if c = CHR ''_'' \<or> c = CHR ''-'' then CHR '' '' else c) dir_name)
      in if length parts \<ge> 2 then join_words (tl parts) else dir_name)"

text \<open>
  One entry of \<^verbatim>\<open>submissions_path.iterdir()\<close>, as the code looks at it: its name, the
  string of its path, whether it is a directory, the lower-cased suffix of every path
  under it (\<^verbatim>\<open>file_path.suffix.lower()\<close> over \<^verbatim>\<open>rglob('*')\<close>), and its modification
  time (absent when \<^verbatim>\<open>stat\<close> raises).
\<close>

record dir_entry =
  entry_name :: string
  entry_path :: string
  entry_is_dir :: bool
  entry_suffixes :: "string list"
  entry_mtime :: "real option"

datatype submissions_root = Missing | NotADirectory | Directory "dir_entry list"

definition code_extensions :: "string list" where
  "code_extensions =
     [''.py'', ''.js'', ''.ts'', ''.java'', ''.cpp'', ''.c'', ''.go'', ''.rb'', ''.php'', ''.cs'']"

definition has_code_files :: "dir_entry \<Rightarrow> bool" where
  "has_code_files directory = (\<exists>suffix \<in> set (entry_suffixes directory). suffix \<in> set code_extensions)"

definition is_late_submission :: "real option \<Rightarrow> bool" where
  "is_late_submission time = False"

definition discover_submissions :: "submissions_root \<Rightarrow> error + StudentSubmission list" where
  "discover_submissions submissions_dir =
     (case submissions_dir of
        Missing \<Rightarrow> Inl FileNotFoundError
      | NotADirectory \<Rightarrow> Inl NotADirectoryError
      | Directory entries \<Rightarrow>
          Inr (map (\<lambda>student_dir.
                      \<lparr> student_id = entry_name student_dir,
                        student_name = extract_student_name (entry_name student_dir),
                        submission_path = entry_path student_dir,
                        submission_time = entry_mtime student_dir,
                        late_submission = is_late_submission (entry_mtime student_dir) \<rparr>)
                   (filter (\<lambda>student_dir. entry_is_dir student_dir \<and> has_code_files student_dir)
                      entries)))"

section \<open>Reports\<close>

subsection \<open>CSV export\<close>

text \<open>
  A cell of the CSV file is the value handed to \<^verbatim>\<open>csv.DictWriter\<close>: a string, a number
  or a bool. \<open>csv_row\<close> is the dict \<^verbatim>\<open>row\<close> after \<^verbatim>\<open>row.update(result.criteria_scores)\<close>.
\<close>

datatype cell = CStr string | CNum real | CBool bool

record csv_file =
  fieldnames :: "string list"
  data_rows :: "cell list list"

definition fixed_fieldnames :: "string list" where
  "fixed_fieldnames =
     [''student_id'', ''student_name'', ''overall_score'', ''grade_letter'',
      ''ai_detected'', ''ai_confidence'', ''ai_risk_level'',
      ''requires_manual_review'', ''academic_integrity_flag'']"

definition csv_row :: "GradingResult \<Rightarrow> (string \<times> cell) list" where
  "csv_row result =
     fold (\<lambda>(criterion, score). AList.update criterion (CNum score)) (criteria_scores result)
       [(''student_id'', CStr (g_student_id result)),
        (''student_name'', CStr (g_student_name result)),
        (''overall_score'', CNum (overall_score result)),
        (''grade_letter'', CStr (grade_letter result)),
        (''ai_detected'',
           (case ai_detection result of None \<Rightarrow> CBool False | Some a \<Rightarrow> CBool (is_ai_generated a))),
        (''ai_confidence'',
           (case ai_detection result of None \<Rightarrow> CNum 0 | Some a \<Rightarrow> CNum (confidence_score a))),
        (''ai_risk_level'',
           (case ai_detection result of None \<Rightarrow> CStr ''N/A'' | Some a \<Rightarrow> CStr (risk_level a))),
        (''requires_manual_review'', CBool (requires_manual_review result)),
        (''academic_integrity_flag'', CBool (academic_integrity_flag result))]"

text \<open>
  \<^verbatim>\<open>DictWriter.writerow\<close> with the default \<^verbatim>\<open>extrasaction='raise'\<close> and
  \<^verbatim>\<open>restval=''\<close>: a key of the row that is no field name raises \<^verbatim>\<open>ValueError\<close>; a
  field name the row lacks is written as the empty string.
\<close>

definition dict_to_list :: "string list \<Rightarrow> (string \<times> cell) list \<Rightarrow> error + cell list" where
  "dict_to_list names rowdict =
     (if \<exists>k \<in> set (map fst rowdict). k \<notin> set names then Inl ValueError
      else Inr (map (\<lambda>key. case map_of rowdict key of None \<Rightarrow> CStr [] | Some c \<Rightarrow> c) names))"

text \<open>
  The row loop of \<^verbatim>\<open>_generate_csv_export\<close>: the rows written to the file, and the
  exception that stopped the loop, if any.
\<close>

fun write_rows :: "string list \<Rightarrow> GradingResult list \<Rightarrow> cell list list \<times> error option" where
  "write_rows names [] = ([], None)"
| "write_rows names (result # results) =
     (case dict_to_list names (csv_row result) of
        Inl e \<Rightarrow> ([], Some e)
      | Inr cells \<Rightarrow> (case write_rows names results of (rows, e) \<Rightarrow> (cells # rows, e)))"

definition generate_csv_export :: "GradingResult list \<Rightarrow> csv_file \<times> error option" where
  "generate_csv_export results =
     (let names = fixed_fieldnames @
                    (case results of [] \<Rightarrow> [] | first # _ \<Rightarrow> map fst (criteria_scores first))
      in case write_rows names results of
           (rows, e) \<Rightarrow> (\<lparr> fieldnames = names, data_rows = rows \<rparr>, e))"

subsection \<open>Individual feedback, class summary and integrity report\<close>

text \<open>
  A report is kept as the values its lines are formatted from. Opening a file for writing
  replaces a file of the same name.
\<close>

record feedback_doc =
  fd_student_name :: string
  fd_student_id :: string
  fd_grade_letter :: string
  fd_overall_score :: real
  fd_integrity_alert :: bool
  fd_body :: "feedback_part list"

definition generate_individual_feedback :: "GradingResult list \<Rightarrow> (string \<times> feedback_doc) list" where
  "generate_individual_feedback results =
     fold (\<lambda>result files.
             AList.update (g_student_id result @ ''_feedback.md'')
               \<lparr> fd_student_name = g_student_name result,
                 fd_student_id = g_student_id result,
                 fd_grade_letter = grade_letter result,
                 fd_overall_score = overall_score result,
                 fd_integrity_alert = academic_integrity_flag result,
                 fd_body = feedback result \<rparr>
               files)
          results []"

text \<open>
  The alert lines of the class summary. The name and id of a flagged student are written
  before \<^verbatim>\<open>ai_info.confidence_score\<close> is read; when \<^verbatim>\<open>ai_info\<close> is \<^verbatim>\<open>None\<close> that
  read raises \<^verbatim>\<open>AttributeError\<close> and the line stays without its second half.
\<close>

fun write_alert_lines ::
  "GradingResult list \<Rightarrow> (string \<times> string \<times> (real \<times> string) option) list \<times> error option" where
  "write_alert_lines [] = ([], None)"
| "write_alert_lines (result # flagged) =
     (case ai_detection result of
        None \<Rightarrow> ([(g_student_name result, g_student_id result, None)], Some AttributeError)
      | Some ai_info \<Rightarrow>
          (case write_alert_lines flagged of
             (lines, e) \<Rightarrow>
               ((g_student_name result, g_student_id result,
                 Some (confidence_score ai_info, risk_level ai_info)) # lines, e)))"

definition all_grades :: "string list" where
  "all_grades =
     [''A+'', ''A'', ''A-'', ''B+'', ''B'', ''B-'', ''C+'', ''C'', ''C-'', ''D+'', ''D'', ''D-'', ''F'']"

record summary_doc =
  sd_assignment :: string
  sd_total_students :: nat
  sd_avg_score :: real
  sd_ai_flagged :: nat
  sd_manual_review_needed :: nat
  sd_grade_rows :: "(string \<times> nat \<times> real) list"
  sd_alert_lines :: "(string \<times> string \<times> (real \<times> string) option) list"

definition generate_summary_report ::
  "config \<Rightarrow> GradingResult list \<Rightarrow> summary_doc \<times> error option" where
  "generate_summary_report cfg results =
     (let total_students = length results;
          avg_score = (if total_students > 0
                       then sum_list (map overall_score results) / real total_students else 0);
          ai_flagged = length (filter academic_integrity_flag results);
          manual_review_needed = length (filter requires_manual_review results);
          grade_rows =
            map (\<lambda>grade.
                   (let count = length (filter (\<lambda>r. grade_letter r = grade) results)
                    in (grade, count,
                        if total_students > 0 then real count / real total_students * 100 else 0)))
                all_grades
      in case (if ai_flagged > 0 then write_alert_lines (filter academic_integrity_flag results)
               else ([], None)) of
           (lines, e) \<Rightarrow>
             (\<lparr> sd_assignment = assignment_title cfg,
                sd_total_students = total_students,
                sd_avg_score = avg_score,
                sd_ai_flagged = ai_flagged,
                sd_manual_review_needed = manual_review_needed,
                sd_grade_rows = grade_rows,
                sd_alert_lines = lines \<rparr>, e))"

text \<open>
  The sections of the integrity report: name and id, then confidence, risk level,
  pattern count, score and grade. As in the summary, a flagged result without a
  detection result raises after the heading of its section is written.
\<close>

fun write_sections ::
  "GradingResult list
     \<Rightarrow> (string \<times> string \<times> (real \<times> string \<times> int \<times> real \<times> string) option) list \<times> error option" where
  "write_sections [] = ([], None)"
| "write_sections (result # flagged) =
     (case ai_detection result of
        None \<Rightarrow> ([(g_student_name result, g_student_id result, None)], Some AttributeError)
      | Some ai_info \<Rightarrow>
          (case write_sections flagged of
             (sections, e) \<Rightarrow>
               ((g_student_name result, g_student_id result,
                 Some (confidence_score ai_info, risk_level ai_info, patterns_detected ai_info,
                       overall_score result, grade_letter result)) # sections, e)))"

record integrity_doc =
  id_students_flagged :: nat
  id_sections :: "(string \<times> string \<times> (real \<times> string \<times> int \<times> real \<times> string) option) list"

text \<open>\<^verbatim>\<open>_generate_integrity_report\<close> returns before it opens a file when nobody is flagged.\<close>

definition generate_integrity_report ::
  "GradingResult list \<Rightarrow> (integrity_doc \<times> error option) option" where
  "generate_integrity_report results =
     (let ai_flagged = filter academic_integrity_flag results
      in if ai_flagged = [] then None
         else (case write_sections ai_flagged of
                 (sections, e) \<Rightarrow>
                   Some (\<lparr> id_students_flagged = length ai_flagged, id_sections = sections \<rparr>, e)))"

subsection \<open>All reports\<close>

text \<open>The files a run writes. \<open>no_artifacts\<close>: nothing written.\<close>

record artifacts =
  feedback_files :: "(string \<times> feedback_doc) list"
  summary_file :: "summary_doc option"
  grades_csv :: "csv_file option"
  integrity_file :: "integrity_doc option"

definition no_artifacts :: artifacts where
  "no_artifacts =
     \<lparr> feedback_files = [], summary_file = None, grades_csv = None, integrity_file = None \<rparr>"

text \<open>
  \<^verbatim>\<open>generate_reports\<close> calls the four generators in turn; an exception in one of them
  leaves its file as far as it was written and skips the generators after it. Creating
  the two output directories is taken to succeed.
\<close>

definition generate_reports :: "config \<Rightarrow> GradingResult list \<Rightarrow> artifacts \<times> error option" where
  "generate_reports cfg results =
     (let a1 = (if individual_feedback cfg
                then no_artifacts \<lparr> feedback_files := generate_individual_feedback results \<rparr>
                else no_artifacts)
      in case (if summary_report cfg
               then (case generate_summary_report cfg results of
                       (doc, e) \<Rightarrow> (a1 \<lparr> summary_file := Some doc \<rparr>, e))
               else (a1, None)) of
           (a2, Some e) \<Rightarrow> (a2, Some e)
         | (a2, None) \<Rightarrow>
             (case (if csv_export cfg
                    then (case generate_csv_export results of
                            (file, e) \<Rightarrow> (a2 \<lparr> grades_csv := Some file \<rparr>, e))
                    else (a2, None)) of
                (a3, Some e) \<Rightarrow> (a3, Some e)
              | (a3, None) \<Rightarrow>
                  (case generate_integrity_report results of
                     None \<Rightarrow> (a3, None)
                   | Some (doc, e) \<Rightarrow> (a3 \<lparr> integrity_file := Some doc \<rparr>, e))))"

section \<open>The pipeline\<close>

text \<open>
  The messages \<^verbatim>\<open>run_pipeline\<close> itself hands to \<^verbatim>\<open>logging\<close>, in the order of the calls:
  the start message, the error \<^verbatim>\<open>No submissions found\<close>, the completion message with
  the three summary lines (number of results, average score, integrity alerts), and the
  error \<^verbatim>\<open>Pipeline failed\<close> of the \<^verbatim>\<open>except\<close> block.
\<close>

datatype log_record =
    InfoStarting
  | ErrorNoSubmissionsFound
  | InfoCompleted nat real nat
  | ErrorPipelineFailed error

text \<open>
  \<^verbatim>\<open>run_pipeline\<close>. The state after the call: \<^verbatim>\<open>self.submissions\<close>, \<^verbatim>\<open>self.results\<close>
  (both empty lists before it), the files written, the messages logged by
  \<^verbatim>\<open>run_pipeline\<close>, and the exception the call re-raised, if any. \<open>rs_raised = None\<close> is
  a normal return.
\<close>

record run_state =
  rs_submissions :: "StudentSubmission list"
  rs_results :: "GradingResult list"
  rs_artifacts :: artifacts
  rs_log :: "log_record list"
  rs_raised :: "error option"

definition run_pipeline ::
  "config \<Rightarrow> submissions_root \<Rightarrow> (nat \<Rightarrow> detector_outcome) \<Rightarrow> (nat \<Rightarrow> nat) \<Rightarrow> run_state" where
  "run_pipeline cfg submissions_dir detect order =
     (case discover_submissions submissions_dir of
        Inl e \<Rightarrow>
          \<lparr> rs_submissions = [], rs_results = [], rs_artifacts = no_artifacts,
            rs_log = [InfoStarting, ErrorPipelineFailed e], rs_raised = Some e \<rparr>
      | Inr submissions \<Rightarrow>
          if submissions = []
          then \<lparr> rs_submissions = [], rs_results = [], rs_artifacts = no_artifacts,
                 rs_log = [InfoStarting, ErrorNoSubmissionsFound], rs_raised = None \<rparr>
          else (case process_all_submissions cfg detect order submissions of
                  Inl e \<Rightarrow>
                    \<lparr> rs_submissions = submissions, rs_results = [],
                      rs_artifacts = no_artifacts,
                      rs_log = [InfoStarting, ErrorPipelineFailed e], rs_raised = Some e \<rparr>
                | Inr results \<Rightarrow>
                    (case generate_reports cfg results of
                       (written, Some e) \<Rightarrow>
                         \<lparr> rs_submissions = submissions, rs_results = results,
                           rs_artifacts = written,
                           rs_log = [InfoStarting, ErrorPipelineFailed e], rs_raised = Some e \<rparr>
                     | (written, None) \<Rightarrow>
                         (let total = length results;
                              ai_flagged = length (filter academic_integrity_flag results);
                              avg_score = (if total > 0
                                           then sum_list (map overall_score results) / real total
                                           else 0)
                          in \<lparr> rs_submissions = submissions, rs_results = results,
                               rs_artifacts = written,
                               rs_log = [InfoStarting, InfoCompleted total avg_score ai_flagged],
                               rs_raised = None \<rparr>))))"

subsection \<open>Sample inputs\<close>

text \<open>
  A configuration with the default values, a detector that never leaves an output file,
  and the completion order in which futures finish as they were submitted.
\<close>

definition sample_config :: config where
  "sample_config =
     \<lparr> ai_enabled = True, ai_threshold = 0.75, ai_analyzers = ''git,documentation'',
       fail_on_detection = False,
       criteria = [(''correctness'', 40), (''code_quality'', 25), (''documentation'', 15),
                   (''testing'', 10), (''creativity'', 10)],
       assignment_title = ''Programming Assignment'', late_penalty = 10,
       parallel_workers = 4, timeout_seconds = 300,
       individual_feedback = True, summary_report = True, csv_export = True \<rparr>"

definition silent_detector :: "nat \<Rightarrow> detector_outcome" where
  "silent_detector i = NoOutputFile"

definition submission_order :: "nat \<Rightarrow> nat" where
  "submission_order n = 0"

definition sample_submission :: StudentSubmission where
  "sample_submission =
     \<lparr> student_id = ''s001_doe_jane'', student_name = ''doe jane'',
       submission_path = ''submissions/s001_doe_jane'', submission_time = None,
       late_submission = False \<rparr>"

definition sample_detection :: AIDetectionResult where
  "sample_detection =
     \<lparr> is_ai_generated = True, confidence_score = 0.95, risk_level = ''CRITICAL'',
       patterns_detected = 7, high_confidence_patterns = 3, analysis_time = 120,
       warnings = [] \<rparr>"

section \<open>Properties\<close>

subsection \<open>Letter grades\<close>

text \<open>
  C5: the letter grade of a score is decided by the fixed breakpoints 97, 93, 90, 87, 83,
  80, 77, 73, 70, 67, 63 and 60, each bracket containing its lower bound and excluding
  the next breakpoint; below 60 the grade is F. In particular 96.99 is an A, 97.0 an A+,
  59.99 an F and 60.0 a D-.
\<close>

theorem score_to_letter_grade_brackets:
  "(score_to_letter_grade s = ''A+'') = (97 \<le> s)
  \<and> (score_to_letter_grade s = ''A'') = (93 \<le> s \<and> s < 97)
  \<and> (score_to_letter_grade s = ''A-'') = (90 \<le> s \<and> s < 93)
  \<and> (score_to_letter_grade s = ''B+'') = (87 \<le> s \<and> s < 90)
  \<and> (score_to_letter_grade s = ''B'') = (83 \<le> s \<and> s < 87)
  \<and> (score_to_letter_grade s = ''B-'') = (80 \<le> s \<and> s < 83)
  \<and> (score_to_letter_grade s = ''C+'') = (77 \<le> s \<and> s < 80)
  \<and> (score_to_letter_grade s = ''C'') = (73 \<le> s \<and> s < 77)
  \<and> (score_to_letter_grade s = ''C-'') = (70 \<le> s \<and> s < 73)
  \<and> (score_to_letter_grade s = ''D+'') = (67 \<le> s \<and> s < 70)
  \<and> (score_to_letter_grade s = ''D'') = (63 \<le> s \<and> s < 67)
  \<and> (score_to_letter_grade s = ''D-'') = (60 \<le> s \<and> s < 63)
  \<and> (score_to_letter_grade s = ''F'') = (s < 60)
  \<and> score_to_letter_grade 96.99 = ''A''
  \<and> score_to_letter_grade 97.0 = ''A+''
  \<and> score_to_letter_grade 59.99 = ''F''
  \<and> score_to_letter_grade 60.0 = ''D-''"
  unfolding score_to_letter_grade_def by auto

subsection \<open>Deep merge\<close>

lemma deep_merge_keys: "fst ` set (deep_merge base upd) = fst ` set base \<union> fst ` set upd"
proof (induction base upd rule: deep_merge.induct)
  case (1 base_dict)
  then show ?case by simp
next
  case (2 base_dict key val rest)
  show ?case
    by (auto simp: 2 dom_update split: option.split json.split)
qed

lemma deep_merge_other: "k \<notin> fst ` set upd \<Longrightarrow> map_of (deep_merge base upd) k = map_of base k"
proof (induction base upd rule: deep_merge.induct)
  case (1 base_dict)
  then show ?case by simp
next
  case (2 base_dict key val rest)
  then show ?case
    by (auto simp: update_conv' split: option.split json.split)
qed

lemma deep_merge_lookup:
  "distinct (map fst upd) \<Longrightarrow> map_of upd k = Some v \<Longrightarrow>
   map_of (deep_merge base upd) k =
     Some (case (map_of base k, v) of
             (Some (JDict b), JDict u) \<Rightarrow> JDict (deep_merge b u)
           | _ \<Rightarrow> v)"
proof (induction base upd rule: deep_merge.induct)
  case (1 base_dict)
  then show ?case by simp
next
  case (2 base_dict key val rest)
  show ?case
  proof (cases "k = key")
    case True
    with 2 have "k \<notin> fst ` set rest" "v = val" by auto
    then show ?thesis using True
      by (auto simp: deep_merge_other update_conv' split: option.split json.split)
  next
    case False
    with 2 show ?thesis
      by (auto simp: update_conv' split: option.split json.split)
  qed
qed

lemma dict_ok_distinct: "dict_ok d \<Longrightarrow> distinct (map fst d)"
  by (induction d rule: dict_ok.induct) auto

lemma dict_ok_nested: "dict_ok d \<Longrightarrow> map_of d k = Some (JDict u) \<Longrightarrow> dict_ok u"
  by (induction d rule: dict_ok.induct) (auto split: if_splits)

lemma conforms_nested:
  "conforms base upd \<Longrightarrow> map_of upd k = Some v \<Longrightarrow> map_of base k = Some (JDict b) \<Longrightarrow>
   \<exists>u. v = JDict u \<and> conforms b u"
  by (induction base upd rule: conforms.induct) (auto split: if_splits json.splits)

lemma has_path_leaf: "has_path v ks \<Longrightarrow> (\<And>d. v \<noteq> JDict d) \<Longrightarrow> ks = []"
  by (cases ks; cases v) auto

lemma has_path_deep_merge:
  "dict_ok upd \<Longrightarrow> conforms base upd \<Longrightarrow> has_path (JDict base) p \<Longrightarrow>
   has_path (JDict (deep_merge base upd)) p"
proof (induction p arbitrary: base upd)
  case Nil
  then show ?case by simp
next
  case (Cons k ks)
  from Cons.prems(3) obtain v where v: "map_of base k = Some v" "has_path v ks"
    by (auto split: option.splits)
  show ?case
  proof (cases "map_of upd k")
    case None
    then have "k \<notin> fst ` set upd" by (simp add: map_of_eq_None_iff)
    then show ?thesis using v by (simp add: deep_merge_other)
  next
    case (Some w)
    have m: "map_of (deep_merge base upd) k =
        Some (case (Some v, w) of (Some (JDict b), JDict u) \<Rightarrow> JDict (deep_merge b u) | _ \<Rightarrow> w)"
      using deep_merge_lookup[OF dict_ok_distinct[OF Cons.prems(1)] Some, of base] v by simp
    show ?thesis
    proof (cases "\<exists>b. v = JDict b")
      case True
      then obtain b where b: "v = JDict b" by blast
      with conforms_nested[OF Cons.prems(2) Some] v obtain u where u: "w = JDict u" "conforms b u"
        by auto
      have "dict_ok u" using dict_ok_nested[OF Cons.prems(1)] Some u by simp
      then have "has_path (JDict (deep_merge b u)) ks"
        using Cons.IH u v b by simp
      then show ?thesis using m u b by simp
    next
      case False
      with v have "ks = []" by (auto dest: has_path_leaf)
      then show ?thesis using m by simp
    qed
  qed
qed

text \<open>
  C3 (amended): deep merge joins nested mappings key by key and lets any other override
  value replace the default. Merging \<open>{a:{x:1,y:2}}\<close> with \<open>{a:{y:9,z:3}}\<close> gives
  \<open>{a:{x:1,y:9,z:3}}\<close>. For every configuration file the resolved configuration has
  every top-level key of the defaults. For an override document that has a mapping
  wherever the defaults have one, every key path of the defaults is still a key path of
  the resolved configuration. Every key of an override is reflected: its value is the
  recursive merge when both sides are mappings and the override value otherwise; keys
  the override does not mention keep their value.
\<close>

theorem deep_merge_resolved_config:
  "deep_merge [(''a'', JDict [(''x'', JInt 1), (''y'', JInt 2)])]
              [(''a'', JDict [(''y'', JInt 9), (''z'', JInt 3)])]
     = [(''a'', JDict [(''x'', JInt 1), (''y'', JInt 9), (''z'', JInt 3)])]
   \<and> fst ` set default_config \<subseteq> fst ` set (load_config src)
   \<and> (dict_ok upd \<and> conforms default_config upd \<and> has_path (JDict default_config) p
        \<longrightarrow> has_path (JDict (load_config (Parsed (JDict upd)))) p)
   \<and> (distinct (map fst upd) \<and> map_of upd k = Some v
        \<longrightarrow> map_of (deep_merge base upd) k =
              Some (case (map_of base k, v) of
                      (Some (JDict b), JDict u) \<Rightarrow> JDict (deep_merge b u)
                    | _ \<Rightarrow> v))
   \<and> (k \<notin> fst ` set upd \<longrightarrow> map_of (deep_merge base upd) k = map_of base k)"
proof -
  have keys: "fst ` set default_config \<subseteq> fst ` set (load_config src)"
  proof (cases src)
    case (Parsed j)
    then show ?thesis by (cases j) (auto simp: deep_merge_keys)
  qed simp_all
  show ?thesis
    using keys by (simp add: has_path_deep_merge deep_merge_lookup deep_merge_other)
qed

theorem deep_merge_resolved_config_witness:
  "dict_ok [(''grading'', JDict [(''criteria'', JDict [(''testing'', JInt 20)])])]
   \<and> conforms default_config [(''grading'', JDict [(''criteria'', JDict [(''testing'', JInt 20)])])]
   \<and> has_path (JDict default_config) [''grading'', ''criteria'', ''creativity'']
   \<and> has_path (JDict (load_config (Parsed (JDict
        [(''grading'', JDict [(''criteria'', JDict [(''testing'', JInt 20)])])]))))
        [''grading'', ''criteria'', ''creativity'']
   \<and> map_of (deep_merge [(''late_penalty'', JInt 10)] [(''late_penalty'', JInt 25)]) ''late_penalty''
        = Some (JInt 25)
   \<and> map_of (deep_merge [(''late_penalty'', JInt 10)] [(''title'', JStr ''Lab 1'')]) ''late_penalty''
        = Some (JInt 10)"
proof -
  let ?upd = "[(''grading'', JDict [(''criteria'', JDict [(''testing'', JInt 20)])])]"
  have h: "dict_ok ?upd" "conforms default_config ?upd"
    "has_path (JDict default_config) [''grading'', ''criteria'', ''creativity'']"
    by (simp_all add: default_config_def)
  have d: "distinct (map fst [(''late_penalty'', JInt 25)])"
    "map_of [(''late_penalty'', JInt 25)] ''late_penalty'' = Some (JInt 25)"
    "''late_penalty'' \<notin> fst ` set [(''title'', JStr ''Lab 1'')]"
    by simp_all
  have c1: "has_path (JDict (load_config (Parsed (JDict ?upd)))) [''grading'', ''criteria'', ''creativity'']"
    using h deep_merge_resolved_config [where src = NoPath and upd = ?upd
        and p = "[''grading'', ''criteria'', ''creativity'']"]
    by blast
  have c2: "map_of (deep_merge [(''late_penalty'', JInt 10)] [(''late_penalty'', JInt 25)]) ''late_penalty''
        = Some (JInt 25)"
    using d deep_merge_resolved_config [where upd = "[(''late_penalty'', JInt 25)]"
        and k = "''late_penalty''" and v = "JInt 25" and base = "[(''late_penalty'', JInt 10)]"]
    by simp
  have c3: "map_of (deep_merge [(''late_penalty'', JInt 10)] [(''title'', JStr ''Lab 1'')]) ''late_penalty''
        = Some (JInt 10)"
    using d deep_merge_resolved_config [where upd = "[(''title'', JStr ''Lab 1'')]"
        and k = "''late_penalty''" and base = "[(''late_penalty'', JInt 10)]"]
    by simp
  show ?thesis
    using h c1 c2 c3 by blast
qed

text \<open>
  The claim as first stated fails: an override that puts a number where the defaults have
  the mapping \<open>grading\<close> replaces the whole mapping, and the nested key \<open>criteria\<close> of the
  defaults is gone from the resolved configuration.
\<close>

theorem deep_merge_drops_nested_keys:
  "has_path (JDict default_config) [''grading'', ''criteria'']
   \<and> \<not> has_path (JDict (load_config (Parsed (JDict [(''grading'', JInt 5)]))))
          [''grading'', ''criteria'']"
  by (simp add: default_config_def)

subsection \<open>Grade calculator\<close>

lemma fold_add_sum_list:
  fixes h :: "'a \<Rightarrow> 'b \<Rightarrow> real"
  shows "fold (\<lambda>(c, s) acc. acc + h c s) xs a = a + (\<Sum>(c, s) \<leftarrow> xs. h c s)"
  by (induction xs arbitrary: a) auto

lemma calculate_grade_raises:
  "sum_list (map snd (criteria cfg)) = 0 \<Longrightarrow> calculate_grade cfg sub ai = Inl ZeroDivisionError"
  by (simp add: calculate_grade_def Let_def)

lemma calculate_grade_returns:
  "sum_list (map snd (criteria cfg)) \<noteq> 0 \<Longrightarrow> \<exists>r. calculate_grade cfg sub ai = Inr r"
  by (simp add: calculate_grade_def Let_def)

lemma calculate_grade_InrD:
  assumes "calculate_grade cfg sub ai = Inr r"
  shows "sum_list (map snd (criteria cfg)) \<noteq> 0"
  using assms by (cases "sum_list (map snd (criteria cfg)) = 0") (simp_all add: calculate_grade_raises)

lemma calculate_grade_flags:
  assumes "calculate_grade cfg sub ai = Inr r"
  shows "academic_integrity_flag r = (case ai of None \<Rightarrow> False | Some a \<Rightarrow> is_ai_generated a)"
    and "requires_manual_review r = (case ai of None \<Rightarrow> False | Some a \<Rightarrow> is_ai_generated a)"
    and "ai_detection r = ai"
    and "g_student_id r = student_id sub"
    and "g_student_name r = student_name sub"
    and "grade_letter r = score_to_letter_grade (overall_score r)"
proof -
  note nz = calculate_grade_InrD[OF assms]
  from assms nz have r: "Inr r = calculate_grade cfg sub ai" by simp
  show "academic_integrity_flag r = (case ai of None \<Rightarrow> False | Some a \<Rightarrow> is_ai_generated a)"
    using r nz unfolding calculate_grade_def Let_def by simp
  show "requires_manual_review r = (case ai of None \<Rightarrow> False | Some a \<Rightarrow> is_ai_generated a)"
    using r nz unfolding calculate_grade_def Let_def by simp
  show "ai_detection r = ai"
    using r nz unfolding calculate_grade_def Let_def by simp
  show "g_student_id r = student_id sub"
    using r nz unfolding calculate_grade_def Let_def by simp
  show "g_student_name r = student_name sub"
    using r nz unfolding calculate_grade_def Let_def by simp
  show "grade_letter r = score_to_letter_grade (overall_score r)"
    using r nz unfolding calculate_grade_def Let_def by simp
qed


lemma scale_twice:
  fixes a b :: real
  shows "map (\<lambda>(k, s). (k, s * b)) (map (\<lambda>(k, s). (k, s * a)) xs) = map (\<lambda>(k, s). (k, s * (a * b))) xs"
  by (induction xs) auto

lemma calculate_grade_scores:
  assumes "calculate_grade cfg sub ai = Inr r"
  shows "criteria_scores r =
     map (\<lambda>(k, s). (k, s * ((case ai of None \<Rightarrow> 1
                               | Some a \<Rightarrow> if is_ai_generated a
                                           then (if fail_on_detection cfg then 0
                                                 else 1 - min 0.5 (confidence_score a))
                                           else 1)
                             * (if late_submission sub then 1 - late_penalty cfg / 100 else 1))))
       initial_base_scores"
proof -
  let ?f1 = "case ai of None \<Rightarrow> 1
             | Some a \<Rightarrow> if is_ai_generated a
                         then (if fail_on_detection cfg then 0 else 1 - min 0.5 (confidence_score a))
                         else (1::real)"
  let ?f2 = "if late_submission sub then 1 - late_penalty cfg / 100 else (1::real)"
  let ?penalised = "case ai of
               None \<Rightarrow> initial_base_scores
             | Some a \<Rightarrow>
                 if is_ai_generated a
                 then (if fail_on_detection cfg
                       then map (\<lambda>(key, score). (key, 0)) initial_base_scores
                       else (let penalty_factor = min 0.5 (confidence_score a)
                             in map (\<lambda>(key, score). (key, score * (1 - penalty_factor)))
                                  initial_base_scores))
                 else initial_base_scores"
  note nz = calculate_grade_InrD[OF assms]
  from assms have r: "Inr r = calculate_grade cfg sub ai" by simp
  have s: "criteria_scores r =
      (if late_submission sub
       then map (\<lambda>(key, score). (key, score * (1 - late_penalty cfg / 100))) ?penalised
       else ?penalised)"
    using r nz unfolding calculate_grade_def Let_def by simp
  have p: "?penalised = map (\<lambda>(k, s). (k, s * ?f1)) initial_base_scores"
    by (simp add: Let_def split: option.split)
  have "criteria_scores r = map (\<lambda>(k, s). (k, s * ?f2)) (map (\<lambda>(k, s). (k, s * ?f1)) initial_base_scores)"
    unfolding s p by simp
  then show ?thesis by (simp only: scale_twice)
qed

lemma calculate_grade_overall:
  assumes "calculate_grade cfg sub ai = Inr r"
  shows "overall_score r =
     (\<Sum>(c, s) \<leftarrow> criteria_scores r.
        s * ((case map_of (criteria cfg) c of None \<Rightarrow> 0 | Some w \<Rightarrow> w) / sum_list (map snd (criteria cfg))))"
proof -
  note nz = calculate_grade_InrD[OF assms]
  from assms have r: "Inr r = calculate_grade cfg sub ai" by simp
  have "overall_score r =
     fold (\<lambda>(criterion, score) acc.
             acc + score * ((case map_of (criteria cfg) criterion of None \<Rightarrow> 0 | Some w \<Rightarrow> w)
                            / sum_list (map snd (criteria cfg))))
          (criteria_scores r) 0"
    using r nz unfolding calculate_grade_def Let_def by simp
  then show ?thesis by (simp add: fold_add_sum_list)
qed









text \<open>
  C10: for a submission that is not late and a detection result that is present and not
  flagged (and weights whose sum is not zero), \<^verbatim>\<open>calculate_grade\<close> returns a result
  whose criterion scores are the base scores and whose two flags are false; changing the
  confidence of the detection result changes neither the criterion scores nor the
  overall score nor the letter grade.
\<close>

theorem unflagged_no_penalty:
  assumes "\<not> late_submission sub" and "\<not> is_ai_generated a"
      and "sum_list (map snd (criteria cfg)) \<noteq> 0"
  shows "\<exists>r. calculate_grade cfg sub (Some a) = Inr r
     \<and> criteria_scores r = initial_base_scores
     \<and> \<not> academic_integrity_flag r \<and> \<not> requires_manual_review r
     \<and> (\<exists>r'. calculate_grade cfg sub (Some (a\<lparr>confidence_score := c\<rparr>)) = Inr r'
            \<and> criteria_scores r' = criteria_scores r
            \<and> overall_score r' = overall_score r
            \<and> grade_letter r' = grade_letter r)"
proof -
  from assms(3) obtain r where r: "calculate_grade cfg sub (Some a) = Inr r"
    using calculate_grade_returns[of cfg sub "Some a"] by auto
  from assms(3) obtain r' where r': "calculate_grade cfg sub (Some (a\<lparr>confidence_score := c\<rparr>)) = Inr r'"
    using calculate_grade_returns[of cfg sub "Some (a\<lparr>confidence_score := c\<rparr>)"] by auto
  have s: "criteria_scores r = initial_base_scores"
    using assms(1,2) by (simp add: calculate_grade_scores[OF r])
  have s': "criteria_scores r' = initial_base_scores"
    using assms(1,2) by (simp add: calculate_grade_scores[OF r'])
  have o: "overall_score r' = overall_score r"
    by (simp add: calculate_grade_overall[OF r] calculate_grade_overall[OF r'] s s')
  have f: "\<not> academic_integrity_flag r" "\<not> requires_manual_review r"
    using assms(2) by (simp_all add: calculate_grade_flags[OF r])
  have l: "grade_letter r' = grade_letter r"
    by (simp add: calculate_grade_flags(6)[OF r] calculate_grade_flags(6)[OF r'] o)
  show ?thesis using r r' s s' o f l by simp
qed

theorem unflagged_no_penalty_witness:
  "\<exists>r. calculate_grade sample_config sample_submission
          (Some (sample_detection\<lparr>is_ai_generated := False, confidence_score := 0.4\<rparr>)) = Inr r
     \<and> criteria_scores r = initial_base_scores
     \<and> \<not> academic_integrity_flag r \<and> \<not> requires_manual_review r
     \<and> (\<exists>r'. calculate_grade sample_config sample_submission
                (Some (sample_detection\<lparr>is_ai_generated := False, confidence_score := 0.99\<rparr>)) = Inr r'
            \<and> criteria_scores r' = criteria_scores r
            \<and> overall_score r' = overall_score r
            \<and> grade_letter r' = grade_letter r)"
proof -
  have h: "\<not> late_submission sample_submission"
    "\<not> is_ai_generated (sample_detection\<lparr>is_ai_generated := False, confidence_score := 0.4\<rparr>)"
    "sum_list (map snd (criteria sample_config)) \<noteq> 0"
    by (simp_all add: sample_config_def sample_submission_def)
  have u: "sample_detection\<lparr>is_ai_generated := False, confidence_score := 0.4\<rparr>
             \<lparr>confidence_score := 0.99\<rparr>
           = sample_detection\<lparr>is_ai_generated := False, confidence_score := 0.99\<rparr>"
    by simp
  show ?thesis
    using unflagged_no_penalty [OF h, of "0.99"] unfolding u .
qed

subsection \<open>Orchestrator\<close>

lemma as_completed_mset: "mset (as_completed order n pending) = mset pending"
proof (induction order n pending rule: as_completed.induct)
  case (1 order n pending)
  show ?case
  proof (cases "pending = []")
    case True
    then show ?thesis by (simp add: as_completed.simps)
  next
    case False
    let ?i = "order n mod length pending"
    have i: "?i < length pending" using False by simp
    have "mset (as_completed order n pending)
        = {#pending ! ?i#} + mset (take ?i pending @ drop (Suc ?i) pending)"
      using False 1[OF False refl] by (subst as_completed.simps) (simp add: Let_def)
    also have "\<dots> = mset (take ?i pending @ pending ! ?i # drop (Suc ?i) pending)"
      by simp
    also have "\<dots> = mset pending"
      using id_take_nth_drop[OF i] by simp
    finally show ?thesis .
  qed
qed

lemma as_completed_map: "as_completed order n (map f xs) = map f (as_completed order n xs)"
proof (induction order n xs rule: as_completed.induct)
  case (1 order n pending)
  show ?case
  proof (cases "pending = []")
    case True
    then show ?thesis by (simp add: as_completed.simps)
  next
    case False
    let ?i = "order n mod length pending"
    have i: "?i < length pending" using False by simp
    have "as_completed order n (map f pending)
        = f (pending ! ?i) # as_completed order (Suc n) (map f (take ?i pending @ drop (Suc ?i) pending))"
      using False i by (subst as_completed.simps) (simp add: Let_def take_map drop_map)
    also have "\<dots> = f (pending ! ?i) # map f (as_completed order (Suc n) (take ?i pending @ drop (Suc ?i) pending))"
      using 1[OF False refl] by simp
    also have "\<dots> = map f (as_completed order n pending)"
      using False by (subst (2) as_completed.simps) (simp add: Let_def)
    finally show ?thesis .
  qed
qed

text \<open>Every rearrangement of the futures is the completion order of some \<open>order\<close>.\<close>

lemma as_completed_cong:
  "(\<And>m. n \<le> m \<Longrightarrow> order m = order' m) \<Longrightarrow>
   as_completed order n pending = as_completed order' n pending"
proof (induction order n pending rule: as_completed.induct)
  case (1 order n pending)
  show ?case
  proof (cases "pending = []")
    case True
    then show ?thesis by (simp add: as_completed.simps)
  next
    case False
    have o: "order n = order' n" using "1.prems" by simp
    have "as_completed order (Suc n) (take (order n mod length pending) pending
              @ drop (Suc (order n mod length pending)) pending)
        = as_completed order' (Suc n) (take (order n mod length pending) pending
              @ drop (Suc (order n mod length pending)) pending)"
      using "1.IH"[OF False refl] "1.prems" by simp
    then show ?thesis
      using False o
      by (subst as_completed.simps, subst (2) as_completed.simps) (simp add: Let_def)
  qed
qed

lemma as_completed_any_order:
  "mset ys = mset xs \<Longrightarrow> \<exists>order. as_completed order n xs = ys"
proof (induction ys arbitrary: xs n)
  case Nil
  then show ?case by (simp add: as_completed.simps)
next
  case (Cons y ys)
  from Cons.prems have "y \<in> set xs"
    by (metis list.set_intros(1) mset_eq_setD)
  then obtain i where i: "i < length xs" "xs ! i = y"
    by (auto simp: in_set_conv_nth)
  let ?rest = "take i xs @ drop (Suc i) xs"
  have "mset xs = mset ?rest + {#y#}"
    using id_take_nth_drop[OF i(1)] i(2) by (metis add_mset_add_single mset.simps(2) mset_append union_mset_add_mset_right)
  with Cons.prems have "mset ys = mset ?rest" by simp
  then obtain order' where o': "as_completed order' (Suc n) ?rest = ys"
    using Cons.IH by blast
  let ?order = "order'(n := i)"
  have "as_completed ?order (Suc n) ?rest = as_completed order' (Suc n) ?rest"
    by (rule as_completed_cong) simp
  then have "as_completed ?order n xs = y # ys"
    using i o' by (subst as_completed.simps) (auto simp: Let_def)
  then show ?case by blast
qed

lemma collect_results_Inr: "collect_results (map Inr rs) = rs"
  by (induction rs) auto

lemma process_submission_cases:
  "(\<exists>r. calculate_grade cfg sub (run_ai_detection cfg sub outcome) = Inr r
        \<and> process_submission cfg sub outcome = r)
   \<or> (\<exists>e. calculate_grade cfg sub (run_ai_detection cfg sub outcome) = Inl e
        \<and> process_submission cfg sub outcome =
            \<lparr> g_student_id = student_id sub, g_student_name = student_name sub,
              ai_detection = None, overall_score = 0, grade_letter = ''F'',
              criteria_scores = [], feedback = [ProcessingFailedLine e],
              requires_manual_review = True, academic_integrity_flag = False \<rparr>)"
  by (cases "calculate_grade cfg sub (run_ai_detection cfg sub outcome)")
     (simp_all add: process_submission_def)

lemma process_submission_student_id:
  "g_student_id (process_submission cfg sub outcome) = student_id sub"
  using process_submission_cases[of cfg sub outcome]
  by (auto simp: calculate_grade_flags(4))

lemma process_submission_flag:
  "academic_integrity_flag (process_submission cfg sub outcome)
   \<Longrightarrow> requires_manual_review (process_submission cfg sub outcome)"
  using process_submission_cases[of cfg sub outcome]
  by (auto simp: calculate_grade_flags(1,2))

lemma process_all_submissions_results:
  assumes "0 < parallel_workers cfg"
  shows "process_all_submissions cfg detect order subs =
     Inr (as_completed order 0
            (map (\<lambda>(i, s). process_submission cfg s (detect i)) (enumerate 0 subs)))"
proof -
  have e: "map (\<lambda>(i, submission). Inr (process_submission cfg submission (detect i)) :: error + GradingResult)
          (enumerate 0 subs)
      = map Inr (map (\<lambda>(i, s). process_submission cfg s (detect i)) (enumerate 0 subs))"
    by (simp add: case_prod_unfold comp_def)
  show ?thesis
    unfolding process_all_submissions_def Let_def e as_completed_map collect_results_Inr
    using assms by simp
qed

lemma process_all_submissions_raises:
  "parallel_workers cfg \<le> 0 \<Longrightarrow> process_all_submissions cfg detect order subs = Inl ValueError"
  by (simp add: process_all_submissions_def)

text \<open>
  C8: when detection followed by grading raises an exception \<open>e\<close> for a submission,
  \<^verbatim>\<open>process_submission\<close> returns (it does not raise) the failing result for that student:
  score 0, grade F, no criterion scores, manual review required, no integrity flag, and
  a feedback that reports \<open>e\<close>.
\<close>

theorem process_submission_failure:
  assumes "calculate_grade cfg sub (run_ai_detection cfg sub outcome) = Inl e"
  shows "process_submission cfg sub outcome =
     \<lparr> g_student_id = student_id sub, g_student_name = student_name sub,
       ai_detection = None, overall_score = 0, grade_letter = ''F'',
       criteria_scores = [], feedback = [ProcessingFailedLine e],
       requires_manual_review = True, academic_integrity_flag = False \<rparr>"
  using assms by (simp add: process_submission_def)

theorem process_submission_failure_witness:
  "process_submission
     (sample_config\<lparr>criteria := [(''correctness'', 0), (''code_quality'', 0)]\<rparr>)
     sample_submission TimeoutExpired =
     \<lparr> g_student_id = student_id sample_submission,
       g_student_name = student_name sample_submission,
       ai_detection = None, overall_score = 0, grade_letter = ''F'',
       criteria_scores = [], feedback = [ProcessingFailedLine ZeroDivisionError],
       requires_manual_review = True, academic_integrity_flag = False \<rparr>"
proof -
  let ?cfg = "sample_config\<lparr>criteria := [(''correctness'', 0), (''code_quality'', 0)]\<rparr>"
  have "calculate_grade ?cfg sample_submission
          (run_ai_detection ?cfg sample_submission TimeoutExpired) = Inl ZeroDivisionError"
    by (rule calculate_grade_raises) simp
  then show ?thesis by (rule process_submission_failure)
qed

text \<open>
  C9: a result with the academic integrity flag set also requires manual review. This
  holds for every result \<^verbatim>\<open>calculate_grade\<close> returns, for every result
  \<^verbatim>\<open>process_submission\<close> returns (the failing result included), and for every result in
  the collection \<^verbatim>\<open>process_all_submissions\<close> returns.
\<close>

theorem integrity_flag_requires_review:
  "(calculate_grade cfg sub ai = Inr r \<longrightarrow> academic_integrity_flag r \<longrightarrow> requires_manual_review r)
   \<and> (academic_integrity_flag (process_submission cfg sub outcome)
        \<longrightarrow> requires_manual_review (process_submission cfg sub outcome))
   \<and> (process_all_submissions cfg detect order subs = Inr results
        \<longrightarrow> (\<forall>g \<in> set results. academic_integrity_flag g \<longrightarrow> requires_manual_review g))"
proof -
  have a: "calculate_grade cfg sub ai = Inr r \<longrightarrow> academic_integrity_flag r \<longrightarrow> requires_manual_review r"
    by (simp add: calculate_grade_flags(1,2))
  have c: "process_all_submissions cfg detect order subs = Inr results
        \<longrightarrow> (\<forall>g \<in> set results. academic_integrity_flag g \<longrightarrow> requires_manual_review g)"
  proof (intro impI ballI)
    fix g
    assume res: "process_all_submissions cfg detect order subs = Inr results"
      and g: "g \<in> set results" and flag: "academic_integrity_flag g"
    from res have w: "0 < parallel_workers cfg"
      by (cases "0 < parallel_workers cfg") (simp_all add: process_all_submissions_raises)
    let ?rs = "map (\<lambda>(i, s). process_submission cfg s (detect i)) (enumerate 0 subs)"
    from res have "results = as_completed order 0 ?rs"
      by (simp add: process_all_submissions_results[OF w])
    then have "mset results = mset ?rs" by (simp add: as_completed_mset)
    then have "set results = set ?rs" by (rule mset_eq_setD)
    with g obtain i s where "g = process_submission cfg s (detect i)" by auto
    with flag show "requires_manual_review g" by (simp add: process_submission_flag)
  qed
  show ?thesis using a c process_submission_flag by blast
qed

theorem integrity_flag_requires_review_witness:
  "(\<exists>r. calculate_grade sample_config sample_submission (Some sample_detection) = Inr r
        \<and> academic_integrity_flag r \<and> requires_manual_review r)
   \<and> academic_integrity_flag (process_submission sample_config sample_submission
         (Report \<lparr> isAIGenerated = Some True, confidenceScore = Some 0.95,
                   patternsDetected = None, highConfidencePatterns = None, analysisTime = None \<rparr>))
   \<and> requires_manual_review (process_submission sample_config sample_submission
         (Report \<lparr> isAIGenerated = Some True, confidenceScore = Some 0.95,
                   patternsDetected = None, highConfidencePatterns = None, analysisTime = None \<rparr>))"
proof -
  let ?out = "Report \<lparr> isAIGenerated = Some True, confidenceScore = Some 0.95,
                   patternsDetected = None, highConfidencePatterns = None, analysisTime = None \<rparr>"
  have "sum_list (map snd (criteria sample_config)) \<noteq> 0" by (simp add: sample_config_def)
  then obtain r where r: "calculate_grade sample_config sample_submission (Some sample_detection) = Inr r"
    using calculate_grade_returns by blast
  have fr: "academic_integrity_flag r"
    by (simp add: calculate_grade_flags(1)[OF r] sample_detection_def)
  have rr: "requires_manual_review r"
    using integrity_flag_requires_review
      [of sample_config sample_submission "Some sample_detection" r] r fr by blast
  have fp: "academic_integrity_flag (process_submission sample_config sample_submission ?out)"
    by (simp add: process_submission_def calculate_grade_def run_ai_detection_def Let_def
        sample_config_def)
  have rp: "requires_manual_review (process_submission sample_config sample_submission ?out)"
    using integrity_flag_requires_review
      [where cfg = sample_config and sub = sample_submission and outcome = ?out] fp by blast
  show ?thesis using r fr rr fp rp by blast
qed

text \<open>
  C1: with a worker pool of positive size, \<^verbatim>\<open>process_all_submissions\<close> returns, for every
  list of submissions, every detector behaviour and every order of completion, a
  collection with exactly one result per submission: it has as many entries as there
  are submissions, it is a rearrangement of the results of \<^verbatim>\<open>process_submission\<close> on
  the submissions, and the student ids of the results are those of the submissions.
\<close>

theorem process_all_submissions_complete:
  assumes "0 < parallel_workers cfg"
  shows "\<exists>results. process_all_submissions cfg detect order subs = Inr results
     \<and> length results = length subs
     \<and> mset results = mset (map (\<lambda>(i, s). process_submission cfg s (detect i)) (enumerate 0 subs))
     \<and> mset (map g_student_id results) = mset (map student_id subs)"
proof -
  let ?rs = "map (\<lambda>(i, s). process_submission cfg s (detect i)) (enumerate 0 subs)"
  let ?results = "as_completed order 0 ?rs"
  have m: "mset ?results = mset ?rs" by (rule as_completed_mset)
  have "length ?results = size (mset ?results)" by simp
  also have "\<dots> = length subs" unfolding m by simp
  finally have l: "length ?results = length subs" .
  have "map g_student_id ?rs = map (student_id \<circ> snd) (enumerate 0 subs)"
    by (simp add: case_prod_unfold process_submission_student_id comp_def)
  also have "\<dots> = map student_id (map snd (enumerate 0 subs))"
    by (simp only: map_map)
  also have "\<dots> = map student_id subs"
    by (simp only: map_snd_enumerate)
  finally have ids: "map g_student_id ?rs = map student_id subs" .
  have "mset (map g_student_id ?results) = mset (map g_student_id ?rs)"
    by (simp only: m mset_map)
  then have i: "mset (map g_student_id ?results) = mset (map student_id subs)"
    by (simp only: ids)
  show ?thesis
    using process_all_submissions_results[OF assms, of detect order subs] m l i by simp
qed

theorem process_all_submissions_complete_witness:
  "\<exists>results. process_all_submissions
       (sample_config\<lparr>criteria := [(''correctness'', 0), (''code_quality'', 0)]\<rparr>)
       silent_detector submission_order
       [sample_submission, sample_submission\<lparr>student_id := ''s002_roe_rick''\<rparr>] = Inr results
     \<and> length results = 2
     \<and> mset (map g_student_id results) = {#''s001_doe_jane'', ''s002_roe_rick''#}"
proof -
  let ?cfg = "sample_config\<lparr>criteria := [(''correctness'', 0), (''code_quality'', 0)]\<rparr>"
  have w: "0 < parallel_workers ?cfg" by (simp add: sample_config_def)
  show ?thesis
    using process_all_submissions_complete
      [OF w, of silent_detector submission_order
         "[sample_submission, sample_submission\<lparr>student_id := ''s002_roe_rick''\<rparr>]"]
    by (auto simp: sample_submission_def)
qed

subsection \<open>CSV export\<close>

text \<open>
  When every criterion of every result is a criterion of the first result, the export
  succeeds with one data row per result and the criteria of the first result as the
  dynamic columns.
\<close>

lemma fold_update_keys:
  "fst ` set (fold (\<lambda>(k, v). AList.update k (f v)) xs init) = fst ` set init \<union> fst ` set xs"
proof (induction xs arbitrary: init)
  case Nil
  then show ?case by simp
next
  case (Cons x xs)
  obtain a b where x: "x = (a, b)" by (cases x)
  have "fst ` set (fold (\<lambda>(k, v). AList.update k (f v)) (x # xs) init)
      = fst ` set (AList.update a (f b) init) \<union> fst ` set xs"
    using Cons.IH by (simp add: x)
  also have "\<dots> = ({a} \<union> fst ` set init) \<union> fst ` set xs"
    by (simp only: dom_update)
  also have "\<dots> = fst ` set init \<union> fst ` set (x # xs)"
    by (auto simp: x)
  finally show ?case .
qed

lemma csv_row_keys:
  "fst ` set (csv_row r) = set fixed_fieldnames \<union> fst ` set (criteria_scores r)"
  unfolding csv_row_def fold_update_keys by (simp add: fixed_fieldnames_def)

lemma dict_to_list_ok:
  assumes "fst ` set rowdict \<subseteq> set names"
  shows "\<exists>cells. dict_to_list names rowdict = Inr cells \<and> length cells = length names"
  using assms by (auto simp: dict_to_list_def)

lemma write_rows_ok:
  assumes "\<forall>r \<in> set results. fst ` set (criteria_scores r) \<subseteq> set names"
      and "set fixed_fieldnames \<subseteq> set names"
  shows "\<exists>rows. write_rows names results = (rows, None) \<and> length rows = length results"
  using assms(1)
proof (induction results)
  case Nil
  then show ?case by simp
next
  case (Cons r results)
  have "fst ` set (csv_row r) \<subseteq> set names"
    using Cons.prems assms(2) by (simp add: csv_row_keys)
  then obtain cells where c: "dict_to_list names (csv_row r) = Inr cells"
    using dict_to_list_ok by blast
  from Cons obtain rows where "write_rows names results = (rows, None)" "length rows = length results"
    by auto
  with c show ?case by simp
qed

lemma generate_csv_export_uniform:
  assumes "\<forall>r \<in> set results. fst ` set (criteria_scores r) \<subseteq> fst ` set (criteria_scores first)"
  shows "\<exists>rows. generate_csv_export (first # results) =
            (\<lparr> fieldnames = fixed_fieldnames @ map fst (criteria_scores first), data_rows = rows \<rparr>, None)
         \<and> length rows = length (first # results)"
proof -
  let ?names = "fixed_fieldnames @ map fst (criteria_scores first)"
  have "\<forall>r \<in> set (first # results). fst ` set (criteria_scores r) \<subseteq> set ?names"
    using assms by auto
  moreover have "set fixed_fieldnames \<subseteq> set ?names" by simp
  ultimately obtain rows where "write_rows ?names (first # results) = (rows, None)"
    "length rows = length (first # results)"
    using write_rows_ok by blast
  then show ?thesis by (simp add: generate_csv_export_def)
qed

text \<open>
  C6: the CSV export should hold one data row per result, its dynamic columns being the
  criteria of the first result, also when failing results with no criteria are in the
  collection. The code does not do so when the failing result comes first: the field
  names are then the nine fixed ones, the row of the next graded result carries five
  criteria that are no field names, \<^verbatim>\<open>writerow\<close> raises \<^verbatim>\<open>ValueError\<close>, and the file
  holds one data row for two results.
\<close>

theorem csv_export_raises_after_failing_first:
  "generate_csv_export
     [process_submission
        (sample_config\<lparr>criteria := [(''correctness'', 0), (''code_quality'', 0)]\<rparr>)
        sample_submission TimeoutExpired,
      process_submission sample_config
        (sample_submission\<lparr>student_id := ''s002_roe_rick''\<rparr>) NoOutputFile]
   = (\<lparr> fieldnames = fixed_fieldnames,
         data_rows = [[CStr ''s001_doe_jane'', CStr ''doe jane'', CNum 0, CStr ''F'', CBool False,
                       CNum 0, CStr ''N/A'', CBool True, CBool False]] \<rparr>,
      Some ValueError)"
  by (simp add: generate_csv_export_def process_submission_def calculate_grade_def
      run_ai_detection_def sample_config_def sample_submission_def Let_def csv_row_def
      dict_to_list_def fixed_fieldnames_def initial_base_scores_def)

subsection \<open>The pipeline\<close>

text \<open>
  C7 (amended): when discovery yields no submission, \<^verbatim>\<open>run_pipeline\<close> logs the error
  \<^verbatim>\<open>No submissions found\<close> and returns normally, without raising: nothing is graded, no
  report is written and no completion message is logged. When discovery raises, as it
  does for a submissions directory that does not exist, \<^verbatim>\<open>run_pipeline\<close> logs the
  failure and raises the same exception, again with nothing graded and no report.
\<close>

theorem run_pipeline_no_submissions:
  "(discover_submissions d = Inr [] \<longrightarrow>
      run_pipeline cfg d detect order =
        \<lparr> rs_submissions = [], rs_results = [], rs_artifacts = no_artifacts,
          rs_log = [InfoStarting, ErrorNoSubmissionsFound], rs_raised = None \<rparr>)
   \<and> (discover_submissions d = Inl e \<longrightarrow>
      run_pipeline cfg d detect order =
        \<lparr> rs_submissions = [], rs_results = [], rs_artifacts = no_artifacts,
          rs_log = [InfoStarting, ErrorPipelineFailed e], rs_raised = Some e \<rparr>)
   \<and> discover_submissions Missing = Inl FileNotFoundError"
  by (simp add: run_pipeline_def discover_submissions_def)

theorem run_pipeline_no_submissions_witness:
  "run_pipeline sample_config
     (Directory [\<lparr> entry_name = ''notes.txt'', entry_path = ''submissions/notes.txt'',
                    entry_is_dir = False, entry_suffixes = [], entry_mtime = Some 10 \<rparr>,
                 \<lparr> entry_name = ''s003_poe_pat'', entry_path = ''submissions/s003_poe_pat'',
                    entry_is_dir = True, entry_suffixes = [''.txt'', ''''], entry_mtime = Some 20 \<rparr>])
     silent_detector submission_order =
     \<lparr> rs_submissions = [], rs_results = [], rs_artifacts = no_artifacts,
       rs_log = [InfoStarting, ErrorNoSubmissionsFound], rs_raised = None \<rparr>
   \<and> run_pipeline sample_config Missing silent_detector submission_order =
     \<lparr> rs_submissions = [], rs_results = [], rs_artifacts = no_artifacts,
       rs_log = [InfoStarting, ErrorPipelineFailed FileNotFoundError],
       rs_raised = Some FileNotFoundError \<rparr>"
proof -
  let ?d = "Directory [\<lparr> entry_name = ''notes.txt'', entry_path = ''submissions/notes.txt'',
                    entry_is_dir = False, entry_suffixes = [], entry_mtime = Some 10 \<rparr>,
                 \<lparr> entry_name = ''s003_poe_pat'', entry_path = ''submissions/s003_poe_pat'',
                    entry_is_dir = True, entry_suffixes = [''.txt'', ''''], entry_mtime = Some 20 \<rparr>]"
  have h: "discover_submissions ?d = Inr []"
    by (simp add: discover_submissions_def has_code_files_def code_extensions_def)
  have m: "discover_submissions Missing = Inl FileNotFoundError"
    by (simp add: discover_submissions_def)
  show ?thesis
    using h m
      run_pipeline_no_submissions [where d = ?d and cfg = sample_config
        and detect = silent_detector and order = submission_order]
      run_pipeline_no_submissions [where d = Missing and e = FileNotFoundError
        and cfg = sample_config and detect = silent_detector and order = submission_order]
    by blast
qed

text \<open>
  The claim as first stated fails: on a directory with no entries \<^verbatim>\<open>run_pipeline\<close> raises
  nothing.
\<close>

theorem run_pipeline_empty_returns_normally:
  "rs_raised (run_pipeline sample_config (Directory []) silent_detector submission_order) = None"
  by (simp add: run_pipeline_def discover_submissions_def)

end
